theory Spec2Isabelle
  imports Main "HOL-Library.Sublist"
begin

section \<open>Strings\<close>

text \<open>
  A Python \<open>str\<close> is modelled as a \<open>string\<close> (a list of characters).  The two control
  characters the escaping functions mention are carriage return and line feed.
\<close>

definition CR :: char where
  "CR = CHR 0x0D"

definition LF :: char where
  "LF = CHR 0x0A"

text \<open>
  \<open>s.replace(old, new)\<close>: every non-overlapping occurrence of \<open>old\<close>, found from left to
  right, is replaced by \<open>new\<close>.  With an empty \<open>old\<close> Python inserts \<open>new\<close> before every
  character and at the end.
\<close>

fun replace :: "'a list \<Rightarrow> 'a list \<Rightarrow> 'a list \<Rightarrow> 'a list" where
  "replace [] old new = (if old = [] then new else [])"
| "replace (c # cs) old new =
     (if old = [] then new @ c # replace cs old new
      else if prefix old (c # cs) then new @ replace (drop (length old) (c # cs)) old new
      else c # replace cs old new)"




section \<open>Escaping of workflow commands\<close>

definition escape_property :: "string \<Rightarrow> string" where
  "escape_property s =
     replace (replace (replace (replace (replace s ''%'' ''%25'') [CR] ''%0D'') [LF] ''%0A'')
       '':'' ''%3A'') '','' ''%2C''"

definition escape_data :: "string \<Rightarrow> string" where
  "escape_data s = replace (replace (replace s ''%'' ''%25'') [CR] ''%0D'') [LF] ''%0A''"

text \<open>
  What one character becomes under each escaping function.  These are not part of the
  source; they describe the composed replacements character by character.
\<close>

definition enc_property :: "char \<Rightarrow> string" where
  "enc_property c =
     (if c = CHR ''%'' then ''%25''
      else if c = CR then ''%0D''
      else if c = LF then ''%0A''
      else if c = CHR '':'' then ''%3A''
      else if c = CHR '','' then ''%2C''
      else [c])"

definition enc_data :: "char \<Rightarrow> string" where
  "enc_data c =
     (if c = CHR ''%'' then ''%25''
      else if c = CR then ''%0D''
      else if c = LF then ''%0A''
      else [c])"

section \<open>Exceptions\<close>

text \<open>
  Modelled from the spec: the module \<open>github_client\<close> (the API gateway) is not among the
  sources.  The spec says that it raises a distinguished forbidden condition on an
  authorization-denied response, and that every other transport failure is a different
  failure.  The string is the detail the exception object carries.
\<close>

datatype gateway_error = Forbidden string | Other_failure string

text \<open>
  The exceptions that can leave the functions of \<open>github.py\<close>.  \<open>CannotPostComment\<close> is
  raised with \<open>raise CannotPostComment from exc\<close>; its argument is that cause.  The others
  with an argument carry their message.
\<close>

datatype exn =
    Gateway gateway_error
  | CannotDeterminePR string
  | CannotPostComment exn
  | NoArtifact string
  | StopIteration
  | KeyError string
  | BadZipFile
  | RuntimeError
  | NotImplementedError
  | UnicodeDecodeError
  | OSError

section \<open>Data of the API\<close>

record artifact =
  name :: string
  artifact_id :: int

record owner_repo =
  full_name :: string

record workflow_run =
  head_branch :: string
  head_repository :: owner_repo

record pull =
  number :: int

record account =
  login :: string

record comment =
  comment_id :: int
  user :: account
  body :: string

text \<open>The keyword arguments of \<open>repo_path.pulls.get\<close>.\<close>

record pulls_params =
  head :: string
  sort_param :: string
  direction :: string
  state :: string

datatype bytes = Bytes "char list"

section \<open>The gateway, the log and the trace of an invocation\<close>

text \<open>Every request the functions can send, with the path arguments and the body.\<close>

datatype request =
    Runs_artifacts_GET string int
  | Artifacts_zip_GET string int
  | Runs_GET string int
  | Pulls_GET string pulls_params
  | User_GET
  | Issue_comments_GET string int
  | Issue_comments_POST string int string
  | Comments_PATCH string int string

text \<open>
  Modelled from the spec: what the gateway answers.  Each endpoint either raises a
  \<open>gateway_error\<close> or returns the materialized response.  Within one invocation no request
  is sent twice, so a function from the request to its answer covers every behaviour of
  the remote service.
\<close>

record github =
  runs_artifacts_get :: "string \<Rightarrow> int \<Rightarrow> gateway_error + artifact list"
  artifacts_zip_get :: "string \<Rightarrow> int \<Rightarrow> gateway_error + bytes"
  runs_get :: "string \<Rightarrow> int \<Rightarrow> gateway_error + workflow_run"
  pulls_get :: "string \<Rightarrow> pulls_params \<Rightarrow> gateway_error + pull list"
  user_get :: "gateway_error + account"
  issue_comments_get :: "string \<Rightarrow> int \<Rightarrow> gateway_error + comment list"
  issue_comments_post :: "string \<Rightarrow> int \<Rightarrow> string \<Rightarrow> gateway_error + unit"
  comments_patch :: "string \<Rightarrow> int \<Rightarrow> string \<Rightarrow> gateway_error + unit"

text \<open>
  Why the archive reader may fail to read an entry that is present: its checksum does not
  match, it is encrypted, or its compression method is not supported.  \<open>zipfile\<close> raises
  \<open>BadZipFile\<close>, \<open>RuntimeError\<close> and \<open>NotImplementedError\<close> there.
\<close>

datatype read_error = Bad_checksum | Encrypted | Unsupported_compression


text \<open>
  The archive reader and the decoder of the standard library: \<open>zipfile.ZipFile\<close> gives the
  table from entry names to what reading the entry gives (its content, or the reason why
  it cannot be read), or fails on bytes that are no archive; \<open>bytes.decode("utf-8")\<close>
  gives the text, or fails.
\<close>

record stdlib =
  ZipFile :: "bytes \<Rightarrow> (string \<rightharpoonup> read_error + bytes) option"
  decode_utf8 :: "bytes \<Rightarrow> string option"

text \<open>
  What an invocation does that a caller can observe: the requests it sends and the lines it
  logs (\<open>log.info\<close>; the module \<open>log\<close> is not among the sources), in order.
\<close>

datatype event = Request request | Log_info string

text \<open>A computation: its trace, and the exception it raises or the value it returns.\<close>

type_synonym 'a io = "event list \<times> (exn + 'a)"

definition return_io :: "'a \<Rightarrow> 'a io" where
  "return_io v = ([], Inr v)"

definition raise_io :: "exn \<Rightarrow> 'a io" where
  "raise_io e = ([], Inl e)"

text \<open>Sequencing: the second computation runs only if the first one returns.\<close>

definition bind_io :: "'a io \<Rightarrow> ('a \<Rightarrow> 'b io) \<Rightarrow> 'b io" where
  "bind_io m f =
     (case m of
        (t, Inl e) \<Rightarrow> (t, Inl e)
      | (t, Inr v) \<Rightarrow> (case f v of (t', r) \<Rightarrow> (t @ t', r)))"

text \<open>
  \<open>try: m except ...\<close>: the handler gives \<open>None\<close> for an exception no \<open>except\<close> clause
  matches, and the body of the matching clause otherwise.
\<close>

definition try_except :: "'a io \<Rightarrow> (exn \<Rightarrow> 'a io option) \<Rightarrow> 'a io" where
  "try_except m handler =
     (case m of
        (t, Inl e) \<Rightarrow>
          (case handler e of
             None \<Rightarrow> (t, Inl e)
           | Some (t', r) \<Rightarrow> (t @ t', r))
      | (t, Inr v) \<Rightarrow> (t, Inr v))"

text \<open>Sending a request: it is recorded, and the gateway's answer is returned or raised.\<close>

definition call :: "request \<Rightarrow> gateway_error + 'a \<Rightarrow> 'a io" where
  "call r answer =
     ([Request r], case answer of Inl e \<Rightarrow> Inl (Gateway e) | Inr v \<Rightarrow> Inr v)"

definition info :: "string \<Rightarrow> unit io" where
  "info msg = ([Log_info msg], Inr ())"

text \<open>\<open>next(iter(...))\<close>: the first element, or \<open>StopIteration\<close>.\<close>

definition next_iter :: "'a list \<Rightarrow> 'a io" where
  "next_iter xs = (case xs of [] \<Rightarrow> raise_io StopIteration | x # _ \<Rightarrow> return_io x)"

definition requests :: "'a io \<Rightarrow> request list" where
  "requests m = concat (map (\<lambda>ev. case ev of Request r \<Rightarrow> [r] | Log_info _ \<Rightarrow> []) (fst m))"

definition logs :: "'a io \<Rightarrow> string list" where
  "logs m = concat (map (\<lambda>ev. case ev of Request _ \<Rightarrow> [] | Log_info l \<Rightarrow> [l]) (fst m))"

definition outcome :: "'a io \<Rightarrow> exn + 'a" where
  "outcome m = snd m"

section \<open>The functions of \<open>github.py\<close>\<close>

definition GITHUB_ACTIONS_LOGIN :: string where
  "GITHUB_ACTIONS_LOGIN = ''github-actions[bot]''"



text \<open>
  \<open>get_prs = functools.partial(repo_path.pulls.get, head=full_branch, sort="updated",
  direction="desc")\<close>, called with the state.
\<close>

definition get_prs :: "github \<Rightarrow> string \<Rightarrow> string \<Rightarrow> string \<Rightarrow> pull list io" where
  "get_prs github repository full_branch st =
     (let params = \<lparr>head = full_branch, sort_param = ''updated'', direction = ''desc'',
                     state = st\<rparr>
      in call (Pulls_GET repository params) (pulls_get github repository params))"

text \<open>
  The first \<open>try\<close> returns from the function when it finds a number; its handler is
  \<open>pass\<close>, so the statements after it are what the handler continues with.
\<close>

definition get_pr_number_from_workflow_run :: "github \<Rightarrow> string \<Rightarrow> int \<Rightarrow> int io" where
  "get_pr_number_from_workflow_run github repository run_id =
     bind_io (call (Runs_GET repository run_id) (runs_get github repository run_id)) (\<lambda>run.
       let branch = head_branch run;
           repo_name = full_name (head_repository run);
           full_branch = repo_name @ '':'' @ branch
       in try_except
            (bind_io (get_prs github repository full_branch ''open'') (\<lambda>prs.
               next_iter (map number prs)))
            (\<lambda>e. case e of
               StopIteration \<Rightarrow> Some (
                 bind_io (info (''No open PR found for branch '' @ full_branch
                            @ '', defaulting to all PRs'')) (\<lambda>_.
                 try_except
                   (bind_io (get_prs github repository full_branch ''all'') (\<lambda>prs.
                      next_iter (map number prs)))
                   (\<lambda>e. case e of
                      StopIteration \<Rightarrow>
                        Some (raise_io (CannotDeterminePR
                          (''No open PR found for branch '' @ full_branch)))
                    | _ \<Rightarrow> None)))
             | _ \<Rightarrow> None))"

definition get_my_login :: "github \<Rightarrow> string io" where
  "get_my_login github =
     bind_io
       (try_except
          (bind_io (call User_GET (user_get github)) (\<lambda>response. return_io (Inr response)))
          (\<lambda>e. case e of
             Gateway (Forbidden _) \<Rightarrow> Some (return_io (Inl GITHUB_ACTIONS_LOGIN))
           | _ \<Rightarrow> None))
       (\<lambda>r. case r of
          Inl early \<Rightarrow> return_io early
        | Inr response \<Rightarrow> return_io (login response))"

text \<open>\<open>except github_client.Forbidden as exc: raise CannotPostComment from exc\<close>\<close>

definition forbidden_to_CannotPostComment :: "exn \<Rightarrow> unit io option" where
  "forbidden_to_CannotPostComment exc =
     (case exc of
        Gateway (Forbidden _) \<Rightarrow> Some (raise_io (CannotPostComment exc))
      | _ \<Rightarrow> None)"

text \<open>
  The \<open>for ... else\<close> loop of \<open>post_comment\<close> over the comments that are left: the first
  comment that passes the test is patched and the loop is left by \<open>break\<close>; the \<open>else\<close>
  branch runs when the list is exhausted.
\<close>

fun post_comment_loop ::
  "github \<Rightarrow> string \<Rightarrow> string \<Rightarrow> int \<Rightarrow> string \<Rightarrow> string \<Rightarrow> comment list \<Rightarrow> unit io" where
  "post_comment_loop github me repository pr_number contents marker [] =
     bind_io (info ''Adding new comment'') (\<lambda>_.
     try_except
       (call (Issue_comments_POST repository pr_number contents)
          (issue_comments_post github repository pr_number contents))
       forbidden_to_CannotPostComment)"
| "post_comment_loop github me repository pr_number contents marker (comment # rest) =
     (if login (user comment) = me \<and> sublist marker (body comment) then
        bind_io (info ''Update previous comment'') (\<lambda>_.
        try_except
          (call (Comments_PATCH repository (comment_id comment) contents)
             (comments_patch github repository (comment_id comment) contents))
          forbidden_to_CannotPostComment)
      else post_comment_loop github me repository pr_number contents marker rest)"

definition post_comment ::
  "github \<Rightarrow> string \<Rightarrow> string \<Rightarrow> int \<Rightarrow> string \<Rightarrow> string \<Rightarrow> unit io" where
  "post_comment github me repository pr_number contents marker =
     bind_io (call (Issue_comments_GET repository pr_number)
                (issue_comments_get github repository pr_number))
       (post_comment_loop github me repository pr_number contents marker)"

section \<open>Writing the outputs file\<close>

text \<open>
  The files that exist, with their contents, and the paths that cannot be opened for
  appending (\<open>open("a")\<close> raises \<open>OSError\<close> there).
\<close>

record filesystem =
  files :: "string \<rightharpoonup> string"
  unopenable :: "string \<Rightarrow> bool"

text \<open>\<open>path.open("a")\<close> creates the file when it does not exist.\<close>

definition open_append :: "string \<Rightarrow> filesystem \<Rightarrow> exn + filesystem" where
  "open_append path fs =
     (if unopenable fs path then Inl OSError
      else case files fs path of
             None \<Rightarrow> Inr (fs\<lparr>files := (files fs)(path \<mapsto> [])\<rparr>)
           | Some _ \<Rightarrow> Inr fs)"

definition file_write :: "string \<Rightarrow> string \<Rightarrow> filesystem \<Rightarrow> filesystem" where
  "file_write path content fs =
     fs\<lparr>files := (files fs)(path \<mapsto> (case files fs path of None \<Rightarrow> [] | Some old \<Rightarrow> old) @ content)\<rparr>"

text \<open>\<open>json.dumps\<close> of a \<open>bool\<close>, the type \<open>set_output\<close> declares for its values.\<close>

definition json_dumps :: "bool \<Rightarrow> string" where
  "json_dumps b = (if b then ''true'' else ''false'')"

text \<open>
  \<open>github_output\<close> is a \<open>pathlib.Path\<close> or \<open>None\<close>; a path object is always true, so
  \<open>if github_output:\<close> tests for \<open>None\<close>.  The keyword arguments are kept in their order.
\<close>

definition set_output ::
  "string option \<Rightarrow> (string \<times> bool) list \<Rightarrow> filesystem \<Rightarrow> (exn + unit) \<times> filesystem" where
  "set_output github_output kwargs fs =
     (case github_output of
        None \<Rightarrow> (Inr (), fs)
      | Some path \<Rightarrow>
          (case open_append path fs of
             Inl e \<Rightarrow> (Inl e, fs)
           | Inr fs' \<Rightarrow>
               (Inr (), fold (\<lambda>(key, val) f. file_write path (key @ ''='' @ json_dumps val @ [LF]) f)
                          kwargs fs')))"

section \<open>Notions used to state the properties\<close>

text \<open>Whether an answer of the gateway is the forbidden condition.\<close>

definition is_forbidden :: "gateway_error + 'a \<Rightarrow> bool" where
  "is_forbidden answer = (case answer of Inl (Forbidden _) \<Rightarrow> True | _ \<Rightarrow> False)"

text \<open>
  The query \<open>get_prs\<close> sends for a run and a state: the head is
  \<open>"{head_repository.full_name}:{head_branch}"\<close>, sorted by \<open>updated\<close>, descending.
\<close>

definition pulls_query :: "workflow_run \<Rightarrow> string \<Rightarrow> pulls_params" where
  "pulls_query run st =
     \<lparr>head = full_name (head_repository run) @ '':'' @ head_branch run,
      sort_param = ''updated'', direction = ''desc'', state = st\<rparr>"

section \<open>Sessions of the test suite\<close>

text \<open>
  The tests register answers on a session; a request that was not registered fails.
  These gateways are used to run the functions on concrete inputs.
\<close>

definition unregistered :: github where
  "unregistered =
     \<lparr>runs_artifacts_get = \<lambda>_ _. Inl (Other_failure ''404''),
      artifacts_zip_get = \<lambda>_ _. Inl (Other_failure ''404''),
      runs_get = \<lambda>_ _. Inl (Other_failure ''404''),
      pulls_get = \<lambda>_ _. Inl (Other_failure ''404''),
      user_get = Inl (Other_failure ''404''),
      issue_comments_get = \<lambda>_ _. Inl (Other_failure ''404''),
      issue_comments_post = \<lambda>_ _ _. Inl (Other_failure ''404''),
      comments_patch = \<lambda>_ _ _. Inl (Other_failure ''404'')\<rparr>"

definition comments_session ::
  "comment list \<Rightarrow> gateway_error + unit \<Rightarrow> gateway_error + unit \<Rightarrow> github" where
  "comments_session comments patch_answer post_answer =
     unregistered\<lparr>issue_comments_get := \<lambda>_ _. Inr comments,
                  comments_patch := \<lambda>_ _ _. patch_answer,
                  issue_comments_post := \<lambda>_ _ _. post_answer\<rparr>"

definition pulls_session :: "workflow_run \<Rightarrow> pull list \<Rightarrow> pull list \<Rightarrow> github" where
  "pulls_session run open_prs all_prs =
     unregistered\<lparr>runs_get := \<lambda>_ _. Inr run,
                  pulls_get := \<lambda>_ params.
                    if state params = ''open'' then Inr open_prs else Inr all_prs\<rparr>"

definition user_session :: "gateway_error + account \<Rightarrow> github" where
  "user_session answer = unregistered\<lparr>user_get := answer\<rparr>"

definition artifacts_session :: "artifact list \<Rightarrow> bytes \<Rightarrow> github" where
  "artifacts_session artifacts zip_bytes =
     unregistered\<lparr>runs_artifacts_get := \<lambda>_ _. Inr artifacts,
                  artifacts_zip_get := \<lambda>_ _. Inr zip_bytes\<rparr>"

definition comment_of :: "int \<Rightarrow> string \<Rightarrow> string \<Rightarrow> comment" where
  "comment_of i author content = \<lparr>comment_id = i, user = \<lparr>login = author\<rparr>, body = content\<rparr>"

definition artifact_of :: "string \<Rightarrow> int \<Rightarrow> artifact" where
  "artifact_of n i = \<lparr>name = n, artifact_id = i\<rparr>"

definition example_run :: workflow_run where
  "example_run =
     \<lparr>head_branch = ''other'', head_repository = \<lparr>full_name = ''someone/repo-name''\<rparr>\<rparr>"

text \<open>
  A library that reads one archive, with the entry \<open>foo.txt\<close> of content \<open>bar\<close> and an
  encrypted entry \<open>locked.txt\<close>, and decodes every byte string to the text of the same
  characters.
\<close>

definition example_lib :: stdlib where
  "example_lib =
     \<lparr>ZipFile = \<lambda>b. if b = Bytes ''zip''
        then Some [''foo.txt'' \<mapsto> Inr (Bytes ''bar''), ''locked.txt'' \<mapsto> Inl Encrypted]
        else None,
      decode_utf8 = \<lambda>b. case b of Bytes cs \<Rightarrow> Some cs\<rparr>"

definition empty_fs :: filesystem where
  "empty_fs = \<lparr>files = Map.empty, unopenable = \<lambda>path. path = ''/''\<rparr>"

section \<open>Properties of the escaping functions\<close>

lemma replace_single: "replace s [a] new = concat (map (\<lambda>c. if c = a then new else [c]) s)"
  by (induction s) auto

lemma escape_property_Nil: "escape_property [] = []"
  by (simp add: escape_property_def)

lemma escape_property_Cons: "escape_property (c # cs) = enc_property c @ escape_property cs"
  by (simp add: escape_property_def enc_property_def replace_single CR_def LF_def)

lemma escape_data_Nil: "escape_data [] = []"
  by (simp add: escape_data_def)

lemma escape_data_Cons: "escape_data (c # cs) = enc_data c @ escape_data cs"
  by (simp add: escape_data_def enc_data_def replace_single CR_def LF_def)

lemma enc_property_cancel:
  "enc_property x @ a = enc_property y @ b \<Longrightarrow> x = y \<and> a = b"
  by (auto simp: enc_property_def CR_def LF_def split: if_splits)

lemma enc_data_cancel:
  "enc_data x @ a = enc_data y @ b \<Longrightarrow> x = y \<and> a = b"
  by (auto simp: enc_data_def CR_def LF_def split: if_splits)

lemma enc_property_not_Nil: "enc_property x \<noteq> []"
  by (simp add: enc_property_def)

lemma enc_data_not_Nil: "enc_data x \<noteq> []"
  by (simp add: enc_data_def)

lemma escape_property_inj: "escape_property s = escape_property t \<Longrightarrow> s = t"
proof (induction s arbitrary: t)
  case Nil
  then show ?case
    by (cases t) (auto simp add: escape_property_Nil escape_property_Cons enc_property_not_Nil)
next
  case (Cons x xs)
  show ?case
  proof (cases t)
    case Nil
    with Cons.prems show ?thesis
      by (simp add: escape_property_Nil escape_property_Cons enc_property_not_Nil)
  next
    case (Cons y ys)
    with Cons.prems have "enc_property x @ escape_property xs = enc_property y @ escape_property ys"
      by (simp add: escape_property_Cons)
    then have "x = y" and "escape_property xs = escape_property ys"
      using enc_property_cancel by blast+
    with Cons.IH Cons show ?thesis by simp
  qed
qed

lemma escape_data_inj: "escape_data s = escape_data t \<Longrightarrow> s = t"
proof (induction s arbitrary: t)
  case Nil
  then show ?case
    by (cases t) (auto simp add: escape_data_Nil escape_data_Cons enc_data_not_Nil)
next
  case (Cons x xs)
  show ?case
  proof (cases t)
    case Nil
    with Cons.prems show ?thesis
      by (simp add: escape_data_Nil escape_data_Cons enc_data_not_Nil)
  next
    case (Cons y ys)
    with Cons.prems have "enc_data x @ escape_data xs = enc_data y @ escape_data ys"
      by (simp add: escape_data_Cons)
    then have "x = y" and "escape_data xs = escape_data ys"
      using enc_data_cancel by blast+
    with Cons.IH Cons show ?thesis by simp
  qed
qed

text \<open>
  Claim C9.  \<open>escape_property\<close> is injective: two strings with the same escaped form are
  the same string; and so is \<open>escape_data\<close>.  The percent sign is replaced first, so the
  percent signs that the later replacements introduce are never escaped again, and every
  character has its own code.
\<close>

theorem escape_functions_injective:
  "(escape_property s = escape_property t \<longrightarrow> s = t) \<and>
   (escape_data s = escape_data t \<longrightarrow> s = t)"
  using escape_property_inj escape_data_inj by blast

theorem escape_functions_injective_witness:
  "escape_property ''50%: a,b'' = ''50%25%3A a%2Cb'' \<and>
   escape_data ''50%: a,b'' = ''50%25: a,b'' \<and>
   (escape_property ''50%: a,b'' = escape_property (''50%'' @ '': a,b'')) \<and>
   (escape_data ''50%: a,b'' = escape_data (''50%'' @ '': a,b'')) \<and>
   ''50%: a,b'' = ''50%'' @ '': a,b''"
  using escape_functions_injective [of "''50%: a,b''" "''50%'' @ '': a,b''"]
  by (simp add: escape_property_def escape_data_def CR_def LF_def)

section \<open>The comment upsert\<close>

lemmas io_defs =
  return_io_def raise_io_def bind_io_def try_except_def call_def info_def next_iter_def

lemmas session_defs =
  unregistered_def comments_session_def pulls_session_def user_session_def
  artifacts_session_def comment_of_def artifact_of_def example_run_def example_lib_def
  empty_fs_def

lemma post_comment_loop_skip:
  "\<forall>x\<in>set pre. \<not> (login (user x) = me \<and> sublist marker (body x)) \<Longrightarrow>
   post_comment_loop github me repository pr_number contents marker (pre @ rest) =
   post_comment_loop github me repository pr_number contents marker rest"
  by (induction pre) auto

lemma post_comment_get_fails:
  "issue_comments_get github repository pr_number = Inl e \<Longrightarrow>
   post_comment github me repository pr_number contents marker =
     ([Request (Issue_comments_GET repository pr_number)], Inl (Gateway e))"
  by (simp add: post_comment_def io_defs)

lemma post_comment_update:
  assumes "issue_comments_get github repository pr_number = Inr (pre @ c # post)"
    and "\<forall>x\<in>set pre. \<not> (login (user x) = me \<and> sublist marker (body x))"
    and "login (user c) = me \<and> sublist marker (body c)"
  shows "post_comment github me repository pr_number contents marker =
     ([Request (Issue_comments_GET repository pr_number),
       Log_info ''Update previous comment'',
       Request (Comments_PATCH repository (comment_id c) contents)],
      (case comments_patch github repository (comment_id c) contents of
         Inl (Forbidden d) \<Rightarrow> Inl (CannotPostComment (Gateway (Forbidden d)))
       | Inl (Other_failure d) \<Rightarrow> Inl (Gateway (Other_failure d))
       | Inr u \<Rightarrow> Inr u))"
  using assms
  by (simp add: post_comment_def post_comment_loop_skip io_defs
      forbidden_to_CannotPostComment_def split: sum.splits gateway_error.splits)

lemma post_comment_create:
  assumes "issue_comments_get github repository pr_number = Inr comments"
    and "\<forall>x\<in>set comments. \<not> (login (user x) = me \<and> sublist marker (body x))"
  shows "post_comment github me repository pr_number contents marker =
     ([Request (Issue_comments_GET repository pr_number),
       Log_info ''Adding new comment'',
       Request (Issue_comments_POST repository pr_number contents)],
      (case issue_comments_post github repository pr_number contents of
         Inl (Forbidden d) \<Rightarrow> Inl (CannotPostComment (Gateway (Forbidden d)))
       | Inl (Other_failure d) \<Rightarrow> Inl (Gateway (Other_failure d))
       | Inr u \<Rightarrow> Inr u))"
  using assms
    post_comment_loop_skip [of comments me marker github repository pr_number contents "[]"]
  by (simp add: post_comment_def io_defs forbidden_to_CannotPostComment_def
      split: sum.splits gateway_error.splits)

text \<open>
  The three ways an invocation can go: the listing fails, or a first comment of the
  acting identity with the marker exists, or no comment passes the test.
\<close>

lemma post_comment_cases:
  obtains (fails) e where "issue_comments_get github repository pr_number = Inl e"
  | (update) pre c post where
      "issue_comments_get github repository pr_number = Inr (pre @ c # post)"
      "\<forall>x\<in>set pre. \<not> (login (user x) = me \<and> sublist marker (body x))"
      "login (user c) = me \<and> sublist marker (body c)"
  | (create) comments where
      "issue_comments_get github repository pr_number = Inr comments"
      "\<forall>x\<in>set comments. \<not> (login (user x) = me \<and> sublist marker (body x))"
proof (cases "issue_comments_get github repository pr_number")
  case (Inl e)
  then show ?thesis by (rule fails)
next
  case (Inr comments)
  show ?thesis
  proof (cases "\<exists>x\<in>set comments. login (user x) = me \<and> sublist marker (body x)")
    case True
    then obtain pre c post where "comments = pre @ c # post"
      "login (user c) = me \<and> sublist marker (body c)"
      "\<forall>x\<in>set pre. \<not> (login (user x) = me \<and> sublist marker (body x))"
      using split_list_first_prop
        [of comments "\<lambda>x. login (user x) = me \<and> sublist marker (body x)"]
      by blast
    with Inr show ?thesis using update by blast
  next
    case False
    with Inr show ?thesis using create by blast
  qed
qed

text \<open>
  Claim C1.  The listing of the comments having returned \<open>comments\<close>: if some comment has
  the author \<open>me\<close> and the marker in its body, \<open>post_comment\<close> sends no request that
  creates a comment, and what it sends is the listing and one update of such a comment;
  and whatever the list, every update it sends goes to the identifier of a comment whose
  author is \<open>me\<close> and whose body contains the marker, never to a comment that only
  contains the marker.
\<close>

theorem post_comment_no_second_comment_no_hijack:
  assumes "issue_comments_get github repository pr_number = Inr comments"
  shows "((\<exists>c\<in>set comments. login (user c) = me \<and> sublist marker (body c)) \<longrightarrow>
            (\<forall>repo n b. Issue_comments_POST repo n b \<notin>
               set (requests (post_comment github me repository pr_number contents marker))) \<and>
            (\<exists>c\<in>set comments. login (user c) = me \<and> sublist marker (body c) \<and>
               requests (post_comment github me repository pr_number contents marker) =
                 [Issue_comments_GET repository pr_number,
                  Comments_PATCH repository (comment_id c) contents])) \<and>
         (\<forall>repo i b. Comments_PATCH repo i b \<in>
               set (requests (post_comment github me repository pr_number contents marker)) \<longrightarrow>
            (\<exists>c\<in>set comments. comment_id c = i \<and> login (user c) = me \<and>
               sublist marker (body c)))"
proof (cases rule: post_comment_cases [where github = github and repository = repository
      and pr_number = pr_number and me = me and marker = marker])
  case (fails e)
  with assms show ?thesis by simp
next
  case (update pre c post)
  from post_comment_update [OF update, of contents]
  have "requests (post_comment github me repository pr_number contents marker) =
     [Issue_comments_GET repository pr_number,
      Comments_PATCH repository (comment_id c) contents]"
    by (simp add: requests_def)
  moreover from update assms have "c \<in> set comments" by auto
  ultimately show ?thesis using update(3) by auto
next
  case (create cs)
  from post_comment_create [OF create, of contents]
  have "requests (post_comment github me repository pr_number contents marker) =
     [Issue_comments_GET repository pr_number,
      Issue_comments_POST repository pr_number contents]"
    by (simp add: requests_def)
  moreover from create assms
  have "\<not> (\<exists>c\<in>set comments. login (user c) = me \<and> sublist marker (body c))"
    by auto
  ultimately show ?thesis by simp
qed

theorem post_comment_no_second_comment_no_hijack_witness:
  "issue_comments_get
     (comments_session
        [comment_of 455 ''bar'' ''Hey marker!'',
         comment_of 456 ''foo'' ''Hey! Hi! How are you? marker''] (Inr ()) (Inr ()))
     ''foo/bar'' 123 =
     Inr [comment_of 455 ''bar'' ''Hey marker!'',
          comment_of 456 ''foo'' ''Hey! Hi! How are you? marker''] \<and>
   (\<exists>c\<in>set [comment_of 455 ''bar'' ''Hey marker!'',
              comment_of 456 ''foo'' ''Hey! Hi! How are you? marker''].
      login (user c) = ''foo'' \<and> sublist ''marker'' (body c)) \<and>
   (\<forall>repo n b. Issue_comments_POST repo n b \<notin>
      set (requests (post_comment
        (comments_session
           [comment_of 455 ''bar'' ''Hey marker!'',
            comment_of 456 ''foo'' ''Hey! Hi! How are you? marker''] (Inr ()) (Inr ()))
        ''foo'' ''foo/bar'' 123 ''hi!'' ''marker''))) \<and>
   Comments_PATCH ''foo/bar'' 456 ''hi!'' \<in>
      set (requests (post_comment
        (comments_session
           [comment_of 455 ''bar'' ''Hey marker!'',
            comment_of 456 ''foo'' ''Hey! Hi! How are you? marker''] (Inr ()) (Inr ()))
        ''foo'' ''foo/bar'' 123 ''hi!'' ''marker'')) \<and>
   Comments_PATCH ''foo/bar'' 455 ''hi!'' \<notin>
      set (requests (post_comment
        (comments_session
           [comment_of 455 ''bar'' ''Hey marker!'',
            comment_of 456 ''foo'' ''Hey! Hi! How are you? marker''] (Inr ()) (Inr ()))
        ''foo'' ''foo/bar'' 123 ''hi!'' ''marker''))"
proof -
  let ?cs = "[comment_of 455 ''bar'' ''Hey marker!'',
              comment_of 456 ''foo'' ''Hey! Hi! How are you? marker'']"
  let ?gh = "comments_session ?cs (Inr ()) (Inr ())"
  have listing: "issue_comments_get ?gh ''foo/bar'' 123 = Inr ?cs"
    by (simp add: session_defs)
  have mine: "\<exists>c\<in>set ?cs. login (user c) = ''foo'' \<and> sublist ''marker'' (body c)"
    by (simp add: session_defs sublist_code)
  have other: "\<not> (\<exists>c\<in>set ?cs. comment_id c = 455 \<and> login (user c) = ''foo'' \<and>
      sublist ''marker'' (body c))"
    by (simp add: session_defs)
  from post_comment_no_second_comment_no_hijack
    [OF listing, of "''foo''" "''marker''" "''hi!''"] mine other
  have "(\<forall>repo n b. Issue_comments_POST repo n b \<notin>
      set (requests (post_comment ?gh ''foo'' ''foo/bar'' 123 ''hi!'' ''marker'')))"
    and "\<exists>c\<in>set ?cs. login (user c) = ''foo'' \<and> sublist ''marker'' (body c) \<and>
      requests (post_comment ?gh ''foo'' ''foo/bar'' 123 ''hi!'' ''marker'') =
        [Issue_comments_GET ''foo/bar'' 123, Comments_PATCH ''foo/bar'' (comment_id c) ''hi!'']"
    and "Comments_PATCH ''foo/bar'' 455 ''hi!'' \<notin>
      set (requests (post_comment ?gh ''foo'' ''foo/bar'' 123 ''hi!'' ''marker''))"
    by blast+
  moreover from this(2)
  have "Comments_PATCH ''foo/bar'' 456 ''hi!'' \<in>
      set (requests (post_comment ?gh ''foo'' ''foo/bar'' 123 ''hi!'' ''marker''))"
    by (auto simp add: session_defs)
  ultimately show ?thesis using listing mine by blast
qed

text \<open>
  Claim C4.  Whenever the update request or the creation request that \<open>post_comment\<close>
  sends is answered by the forbidden condition, \<open>post_comment\<close> raises
  \<open>CannotPostComment\<close> whose cause is that very forbidden exception: it is never
  swallowed.
\<close>

theorem post_comment_forbidden_surfaces:
  "(Comments_PATCH repo i b \<in>
        set (requests (post_comment github me repository pr_number contents marker)) \<and>
      comments_patch github repo i b = Inl (Forbidden d) \<longrightarrow>
      outcome (post_comment github me repository pr_number contents marker) =
        Inl (CannotPostComment (Gateway (Forbidden d)))) \<and>
   (Issue_comments_POST repo n b \<in>
        set (requests (post_comment github me repository pr_number contents marker)) \<and>
      issue_comments_post github repo n b = Inl (Forbidden d) \<longrightarrow>
      outcome (post_comment github me repository pr_number contents marker) =
        Inl (CannotPostComment (Gateway (Forbidden d))))"
proof (cases rule: post_comment_cases [where github = github and repository = repository
      and pr_number = pr_number and me = me and marker = marker])
  case (fails e)
  from post_comment_get_fails [OF fails, of me contents marker]
  show ?thesis by (simp add: requests_def)
next
  case (update pre c post)
  from post_comment_update [OF update, of contents]
  show ?thesis by (auto simp add: requests_def outcome_def)
next
  case (create cs)
  from post_comment_create [OF create, of contents]
  show ?thesis by (auto simp add: requests_def outcome_def)
qed

theorem post_comment_forbidden_surfaces_witness:
  "Comments_PATCH ''foo/bar'' 456 ''hi!'' \<in>
     set (requests (post_comment
       (comments_session [comment_of 456 ''foo'' ''Hey! Hi! How are you? marker'']
          (Inl (Forbidden ''403'')) (Inr ()))
       ''foo'' ''foo/bar'' 123 ''hi!'' ''marker'')) \<and>
   comments_patch
     (comments_session [comment_of 456 ''foo'' ''Hey! Hi! How are you? marker'']
        (Inl (Forbidden ''403'')) (Inr ()))
     ''foo/bar'' 456 ''hi!'' = Inl (Forbidden ''403'') \<and>
   outcome (post_comment
       (comments_session [comment_of 456 ''foo'' ''Hey! Hi! How are you? marker'']
          (Inl (Forbidden ''403'')) (Inr ()))
       ''foo'' ''foo/bar'' 123 ''hi!'' ''marker'') =
     Inl (CannotPostComment (Gateway (Forbidden ''403''))) \<and>
   Issue_comments_POST ''foo/bar'' 123 ''hi!'' \<in>
     set (requests (post_comment (comments_session [] (Inr ()) (Inl (Forbidden ''403'')))
       ''foo'' ''foo/bar'' 123 ''hi!'' ''marker'')) \<and>
   issue_comments_post (comments_session [] (Inr ()) (Inl (Forbidden ''403'')))
     ''foo/bar'' 123 ''hi!'' = Inl (Forbidden ''403'') \<and>
   outcome (post_comment (comments_session [] (Inr ()) (Inl (Forbidden ''403'')))
       ''foo'' ''foo/bar'' 123 ''hi!'' ''marker'') =
     Inl (CannotPostComment (Gateway (Forbidden ''403'')))"
proof -
  let ?gh1 = "comments_session [comment_of 456 ''foo'' ''Hey! Hi! How are you? marker'']
          (Inl (Forbidden ''403'')) (Inr ())"
  let ?gh2 = "comments_session [] (Inr ()) (Inl (Forbidden ''403''))"
  have sent1: "Comments_PATCH ''foo/bar'' 456 ''hi!'' \<in>
     set (requests (post_comment ?gh1 ''foo'' ''foo/bar'' 123 ''hi!'' ''marker''))"
    by (simp add: post_comment_def session_defs io_defs requests_def sublist_code
        forbidden_to_CannotPostComment_def)
  have answer1: "comments_patch ?gh1 ''foo/bar'' 456 ''hi!'' = Inl (Forbidden ''403'')"
    by (simp add: session_defs)
  have sent2: "Issue_comments_POST ''foo/bar'' 123 ''hi!'' \<in>
     set (requests (post_comment ?gh2 ''foo'' ''foo/bar'' 123 ''hi!'' ''marker''))"
    by (simp add: post_comment_def session_defs io_defs requests_def
        forbidden_to_CannotPostComment_def)
  have answer2: "issue_comments_post ?gh2 ''foo/bar'' 123 ''hi!'' = Inl (Forbidden ''403'')"
    by (simp add: session_defs)
  from post_comment_forbidden_surfaces
    [where github = ?gh1 and repo = "''foo/bar''" and i = 456 and b = "''hi!''"
      and me = "''foo''" and repository = "''foo/bar''" and pr_number = 123
      and contents = "''hi!''" and marker = "''marker''" and d = "''403''"] sent1 answer1
  have "outcome (post_comment ?gh1 ''foo'' ''foo/bar'' 123 ''hi!'' ''marker'') =
     Inl (CannotPostComment (Gateway (Forbidden ''403'')))"
    by blast
  moreover from post_comment_forbidden_surfaces
    [where github = ?gh2 and repo = "''foo/bar''" and n = 123 and b = "''hi!''"
      and me = "''foo''" and repository = "''foo/bar''" and pr_number = 123
      and contents = "''hi!''" and marker = "''marker''" and d = "''403''"] sent2 answer2
  have "outcome (post_comment ?gh2 ''foo'' ''foo/bar'' 123 ''hi!'' ''marker'') =
     Inl (CannotPostComment (Gateway (Forbidden ''403'')))"
    by blast
  ultimately show ?thesis using sent1 answer1 sent2 answer2 by blast
qed

text \<open>
  Claim C7.  When the listing holds several comments of the acting identity with the
  marker, only the first of them in the returned order is updated: the requests are the
  listing and one update of that first comment, whatever comes after it in the list, so
  no later duplicate is updated and nothing is deleted.
\<close>

theorem post_comment_first_match_only:
  assumes "issue_comments_get github repository pr_number = Inr (pre @ c # post)"
    and "\<forall>x\<in>set pre. \<not> (login (user x) = me \<and> sublist marker (body x))"
    and "login (user c) = me \<and> sublist marker (body c)"
  shows "requests (post_comment github me repository pr_number contents marker) =
           [Issue_comments_GET repository pr_number,
            Comments_PATCH repository (comment_id c) contents] \<and>
         (\<forall>d\<in>set post. comment_id d \<noteq> comment_id c \<longrightarrow>
            (\<forall>repo b. Comments_PATCH repo (comment_id d) b \<notin>
               set (requests (post_comment github me repository pr_number contents marker))))"
  using post_comment_update [OF assms, of contents] by (simp add: requests_def)

theorem post_comment_first_match_only_witness:
  "issue_comments_get
     (comments_session
        [comment_of 455 ''bar'' ''Hey marker!'',
         comment_of 456 ''foo'' ''Hey! Hi! How are you? marker'',
         comment_of 457 ''foo'' ''marker again''] (Inr ()) (Inr ()))
     ''foo/bar'' 123 =
     Inr ([comment_of 455 ''bar'' ''Hey marker!'']
          @ comment_of 456 ''foo'' ''Hey! Hi! How are you? marker''
          # [comment_of 457 ''foo'' ''marker again'']) \<and>
   \<not> (login (user (comment_of 455 ''bar'' ''Hey marker!'')) = ''foo'' \<and>
      sublist ''marker'' (body (comment_of 455 ''bar'' ''Hey marker!''))) \<and>
   (login (user (comment_of 456 ''foo'' ''Hey! Hi! How are you? marker'')) = ''foo'' \<and>
    sublist ''marker'' (body (comment_of 456 ''foo'' ''Hey! Hi! How are you? marker''))) \<and>
   (login (user (comment_of 457 ''foo'' ''marker again'')) = ''foo'' \<and>
    sublist ''marker'' (body (comment_of 457 ''foo'' ''marker again''))) \<and>
   requests (post_comment
     (comments_session
        [comment_of 455 ''bar'' ''Hey marker!'',
         comment_of 456 ''foo'' ''Hey! Hi! How are you? marker'',
         comment_of 457 ''foo'' ''marker again''] (Inr ()) (Inr ()))
     ''foo'' ''foo/bar'' 123 ''hi!'' ''marker'') =
     [Issue_comments_GET ''foo/bar'' 123, Comments_PATCH ''foo/bar'' 456 ''hi!'']"
proof -
  let ?c1 = "comment_of 455 ''bar'' ''Hey marker!''"
  let ?c2 = "comment_of 456 ''foo'' ''Hey! Hi! How are you? marker''"
  let ?c3 = "comment_of 457 ''foo'' ''marker again''"
  let ?gh = "comments_session [?c1, ?c2, ?c3] (Inr ()) (Inr ())"
  have listing: "issue_comments_get ?gh ''foo/bar'' 123 = Inr ([?c1] @ ?c2 # [?c3])"
    by (simp add: session_defs)
  have before: "\<forall>x\<in>set [?c1]. \<not> (login (user x) = ''foo'' \<and> sublist ''marker'' (body x))"
    by (simp add: session_defs)
  have first: "login (user ?c2) = ''foo'' \<and> sublist ''marker'' (body ?c2)"
    by (simp add: session_defs sublist_code)
  have later: "login (user ?c3) = ''foo'' \<and> sublist ''marker'' (body ?c3)"
    by (simp add: session_defs sublist_code)
  have "comment_id ?c2 = 456"
    by (simp add: session_defs)
  with post_comment_first_match_only [OF listing before first, of "''hi!''"]
  have "requests (post_comment ?gh ''foo'' ''foo/bar'' 123 ''hi!'' ''marker'') =
     [Issue_comments_GET ''foo/bar'' 123, Comments_PATCH ''foo/bar'' 456 ''hi!'']"
    by simp
  moreover have "\<not> (login (user ?c1) = ''foo'' \<and> sublist ''marker'' (body ?c1))"
    by (simp add: session_defs)
  ultimately show ?thesis using listing first later by blast
qed

text \<open>
  Claim C8, as the code has it.  When a first comment of the acting identity with the
  marker is found, the line \<open>Update previous comment\<close> is logged before the update request
  is sent, whatever the answer to that request; nothing else is logged and no comment is
  created.  If the update succeeds the invocation returns; if it is answered by the
  forbidden condition the invocation raises \<open>CannotPostComment\<close>, the line having been
  logged already.
\<close>

theorem post_comment_update_log:
  assumes "issue_comments_get github repository pr_number = Inr (pre @ c # post)"
    and "\<forall>x\<in>set pre. \<not> (login (user x) = me \<and> sublist marker (body x))"
    and "login (user c) = me \<and> sublist marker (body c)"
  shows "fst (post_comment github me repository pr_number contents marker) =
           [Request (Issue_comments_GET repository pr_number),
            Log_info ''Update previous comment'',
            Request (Comments_PATCH repository (comment_id c) contents)] \<and>
         (comments_patch github repository (comment_id c) contents = Inr () \<longrightarrow>
            outcome (post_comment github me repository pr_number contents marker) = Inr ()) \<and>
         (\<forall>d. comments_patch github repository (comment_id c) contents = Inl (Forbidden d) \<longrightarrow>
            outcome (post_comment github me repository pr_number contents marker) =
              Inl (CannotPostComment (Gateway (Forbidden d))))"
  using post_comment_update [OF assms, of contents] by (auto simp add: outcome_def)

theorem post_comment_update_log_witness:
  "fst (post_comment
     (comments_session [comment_of 456 ''foo'' ''Hey! Hi! How are you? marker'']
        (Inr ()) (Inr ()))
     ''foo'' ''foo/bar'' 123 ''hi!'' ''marker'') =
     [Request (Issue_comments_GET ''foo/bar'' 123),
      Log_info ''Update previous comment'',
      Request (Comments_PATCH ''foo/bar'' 456 ''hi!'')] \<and>
   outcome (post_comment
     (comments_session [comment_of 456 ''foo'' ''Hey! Hi! How are you? marker'']
        (Inr ()) (Inr ()))
     ''foo'' ''foo/bar'' 123 ''hi!'' ''marker'') = Inr () \<and>
   outcome (post_comment
     (comments_session [comment_of 456 ''foo'' ''Hey! Hi! How are you? marker'']
        (Inl (Forbidden ''403'')) (Inr ()))
     ''foo'' ''foo/bar'' 123 ''hi!'' ''marker'') =
     Inl (CannotPostComment (Gateway (Forbidden ''403'')))"
proof -
  let ?c = "comment_of 456 ''foo'' ''Hey! Hi! How are you? marker''"
  let ?ok = "comments_session [?c] (Inr ()) (Inr ())"
  let ?denied = "comments_session [?c] (Inl (Forbidden ''403'')) (Inr ())"
  have listing: "issue_comments_get ?ok ''foo/bar'' 123 = Inr ([] @ ?c # [])"
    "issue_comments_get ?denied ''foo/bar'' 123 = Inr ([] @ ?c # [])"
    by (simp_all add: session_defs)
  have before: "\<forall>x\<in>set []. \<not> (login (user x) = ''foo'' \<and> sublist ''marker'' (body x))"
    by simp
  have first: "login (user ?c) = ''foo'' \<and> sublist ''marker'' (body ?c)"
    by (simp add: session_defs sublist_code)
  have ident: "comment_id ?c = 456"
    by (simp add: session_defs)
  have answers: "comments_patch ?ok ''foo/bar'' 456 ''hi!'' = Inr ()"
    "comments_patch ?denied ''foo/bar'' 456 ''hi!'' = Inl (Forbidden ''403'')"
    by (simp_all add: session_defs)
  from post_comment_update_log [OF listing(1) before first, of "''hi!''"] ident answers(1)
  have "fst (post_comment ?ok ''foo'' ''foo/bar'' 123 ''hi!'' ''marker'') =
     [Request (Issue_comments_GET ''foo/bar'' 123),
      Log_info ''Update previous comment'',
      Request (Comments_PATCH ''foo/bar'' 456 ''hi!'')]"
    and "outcome (post_comment ?ok ''foo'' ''foo/bar'' 123 ''hi!'' ''marker'') = Inr ()"
    by simp_all
  moreover
  from post_comment_update_log [OF listing(2) before first, of "''hi!''"] ident answers(2)
  have "outcome (post_comment ?denied ''foo'' ''foo/bar'' 123 ''hi!'' ''marker'') =
     Inl (CannotPostComment (Gateway (Forbidden ''403'')))"
    by simp
  ultimately show ?thesis by blast
qed

text \<open>
  Claim C8, as the spec states it, ties the line to the success of the update.  Here the
  update is answered by the forbidden condition and the invocation fails, yet the line
  has been logged, before the request was sent.
\<close>

theorem post_comment_log_despite_failed_update:
  "fst (post_comment
     (comments_session [comment_of 456 ''foo'' ''Hey! Hi! How are you? marker'']
        (Inl (Forbidden ''403'')) (Inr ()))
     ''foo'' ''foo/bar'' 123 ''hi!'' ''marker'') =
     [Request (Issue_comments_GET ''foo/bar'' 123),
      Log_info ''Update previous comment'',
      Request (Comments_PATCH ''foo/bar'' 456 ''hi!'')] \<and>
   outcome (post_comment
     (comments_session [comment_of 456 ''foo'' ''Hey! Hi! How are you? marker'']
        (Inl (Forbidden ''403'')) (Inr ()))
     ''foo'' ''foo/bar'' 123 ''hi!'' ''marker'') =
     Inl (CannotPostComment (Gateway (Forbidden ''403''))) \<and>
   \<not> (Log_info ''Update previous comment'' \<in> set (fst (post_comment
         (comments_session [comment_of 456 ''foo'' ''Hey! Hi! How are you? marker'']
            (Inl (Forbidden ''403'')) (Inr ()))
         ''foo'' ''foo/bar'' 123 ''hi!'' ''marker'')) \<longrightarrow>
       outcome (post_comment
         (comments_session [comment_of 456 ''foo'' ''Hey! Hi! How are you? marker'']
            (Inl (Forbidden ''403'')) (Inr ()))
         ''foo'' ''foo/bar'' 123 ''hi!'' ''marker'') = Inr ())"
  by (simp add: post_comment_def session_defs io_defs outcome_def sublist_code
      forbidden_to_CannotPostComment_def)

section \<open>The pull request of a workflow run\<close>

lemma get_pr_number_open:
  assumes "runs_get github repository run_id = Inr run"
    and "pulls_get github repository (pulls_query run ''open'') = Inr (pr # prs)"
  shows "get_pr_number_from_workflow_run github repository run_id =
     ([Request (Runs_GET repository run_id),
       Request (Pulls_GET repository (pulls_query run ''open''))],
      Inr (number pr))"
  using assms
  by (simp add: get_pr_number_from_workflow_run_def get_prs_def pulls_query_def io_defs Let_def)

lemma get_pr_number_fallback:
  assumes "runs_get github repository run_id = Inr run"
    and "pulls_get github repository (pulls_query run ''open'') = Inr []"
  shows "get_pr_number_from_workflow_run github repository run_id =
     ([Request (Runs_GET repository run_id),
       Request (Pulls_GET repository (pulls_query run ''open'')),
       Log_info (''No open PR found for branch '' @ full_name (head_repository run) @ '':''
          @ head_branch run @ '', defaulting to all PRs''),
       Request (Pulls_GET repository (pulls_query run ''all''))],
      (case pulls_get github repository (pulls_query run ''all'') of
         Inl e \<Rightarrow> Inl (Gateway e)
       | Inr [] \<Rightarrow> Inl (CannotDeterminePR (''No open PR found for branch ''
           @ full_name (head_repository run) @ '':'' @ head_branch run))
       | Inr (pr # _) \<Rightarrow> Inr (number pr)))"
  using assms
  by (simp add: get_pr_number_from_workflow_run_def get_prs_def pulls_query_def io_defs Let_def
      split: sum.splits list.splits)

text \<open>
  Claim C2.  The run having been fetched: if the query for the open pull requests of the
  branch returns at least one result, \<open>get_pr_number_from_workflow_run\<close> returns the
  number of the first result, and the requests it sends are the run and that query only:
  no query with another state is sent.
\<close>

theorem open_pr_first:
  assumes "runs_get github repository run_id = Inr run"
    and "pulls_get github repository (pulls_query run ''open'') = Inr (pr # prs)"
  shows "outcome (get_pr_number_from_workflow_run github repository run_id) = Inr (number pr) \<and>
     requests (get_pr_number_from_workflow_run github repository run_id) =
       [Runs_GET repository run_id, Pulls_GET repository (pulls_query run ''open'')] \<and>
     (\<forall>repo params. Pulls_GET repo params \<in>
         set (requests (get_pr_number_from_workflow_run github repository run_id)) \<longrightarrow>
       state params = ''open'')"
  using get_pr_number_open [OF assms]
  by (auto simp add: outcome_def requests_def pulls_query_def)

theorem open_pr_first_witness:
  "runs_get (pulls_session example_run [\<lparr>number = 456\<rparr>, \<lparr>number = 7\<rparr>] [\<lparr>number = 9\<rparr>])
     ''foo/bar'' 123 = Inr example_run \<and>
   pulls_get (pulls_session example_run [\<lparr>number = 456\<rparr>, \<lparr>number = 7\<rparr>] [\<lparr>number = 9\<rparr>])
     ''foo/bar'' (pulls_query example_run ''open'') = Inr [\<lparr>number = 456\<rparr>, \<lparr>number = 7\<rparr>] \<and>
   outcome (get_pr_number_from_workflow_run
     (pulls_session example_run [\<lparr>number = 456\<rparr>, \<lparr>number = 7\<rparr>] [\<lparr>number = 9\<rparr>])
     ''foo/bar'' 123) = Inr 456 \<and>
   requests (get_pr_number_from_workflow_run
     (pulls_session example_run [\<lparr>number = 456\<rparr>, \<lparr>number = 7\<rparr>] [\<lparr>number = 9\<rparr>])
     ''foo/bar'' 123) =
     [Runs_GET ''foo/bar'' 123,
      Pulls_GET ''foo/bar'' \<lparr>head = ''someone/repo-name:other'', sort_param = ''updated'',
        direction = ''desc'', state = ''open''\<rparr>]"
proof -
  let ?gh = "pulls_session example_run [\<lparr>number = 456\<rparr>, \<lparr>number = 7\<rparr>] [\<lparr>number = 9\<rparr>]"
  have run: "runs_get ?gh ''foo/bar'' 123 = Inr example_run"
    by (simp add: session_defs)
  have prs: "pulls_get ?gh ''foo/bar'' (pulls_query example_run ''open'') =
      Inr [\<lparr>number = 456\<rparr>, \<lparr>number = 7\<rparr>]"
    by (simp add: session_defs pulls_query_def)
  have query: "pulls_query example_run ''open'' =
      \<lparr>head = ''someone/repo-name:other'', sort_param = ''updated'',
       direction = ''desc'', state = ''open''\<rparr>"
    by (simp add: session_defs pulls_query_def)
  from open_pr_first [OF run prs] query run prs show ?thesis
    by simp
qed

text \<open>
  Claim C3.  The run having been fetched: if the query for the open pull requests returns
  no result, the function logs the fallback notice and repeats the query with the state
  \<open>all\<close>; if that query returns at least one result the function returns the number of
  the first, and if it returns none the function raises \<open>CannotDeterminePR\<close>.
\<close>

theorem no_open_pr_fallback:
  assumes "runs_get github repository run_id = Inr run"
    and "pulls_get github repository (pulls_query run ''open'') = Inr []"
  shows "fst (get_pr_number_from_workflow_run github repository run_id) =
       [Request (Runs_GET repository run_id),
        Request (Pulls_GET repository (pulls_query run ''open'')),
        Log_info (''No open PR found for branch '' @ full_name (head_repository run) @ '':''
          @ head_branch run @ '', defaulting to all PRs''),
        Request (Pulls_GET repository (pulls_query run ''all''))] \<and>
     (\<forall>pr prs. pulls_get github repository (pulls_query run ''all'') = Inr (pr # prs) \<longrightarrow>
        outcome (get_pr_number_from_workflow_run github repository run_id) = Inr (number pr)) \<and>
     (pulls_get github repository (pulls_query run ''all'') = Inr [] \<longrightarrow>
        outcome (get_pr_number_from_workflow_run github repository run_id) =
          Inl (CannotDeterminePR (''No open PR found for branch ''
            @ full_name (head_repository run) @ '':'' @ head_branch run)))"
  using get_pr_number_fallback [OF assms]
  by (auto simp add: outcome_def)

theorem no_open_pr_fallback_witness:
  "runs_get (pulls_session example_run [] [\<lparr>number = 456\<rparr>, \<lparr>number = 7\<rparr>])
     ''foo/bar'' 123 = Inr example_run \<and>
   pulls_get (pulls_session example_run [] [\<lparr>number = 456\<rparr>, \<lparr>number = 7\<rparr>])
     ''foo/bar'' (pulls_query example_run ''open'') = Inr [] \<and>
   pulls_get (pulls_session example_run [] [\<lparr>number = 456\<rparr>, \<lparr>number = 7\<rparr>])
     ''foo/bar'' (pulls_query example_run ''all'') = Inr [\<lparr>number = 456\<rparr>, \<lparr>number = 7\<rparr>] \<and>
   logs (get_pr_number_from_workflow_run
     (pulls_session example_run [] [\<lparr>number = 456\<rparr>, \<lparr>number = 7\<rparr>]) ''foo/bar'' 123) =
     [''No open PR found for branch someone/repo-name:other, defaulting to all PRs''] \<and>
   outcome (get_pr_number_from_workflow_run
     (pulls_session example_run [] [\<lparr>number = 456\<rparr>, \<lparr>number = 7\<rparr>]) ''foo/bar'' 123) =
     Inr 456 \<and>
   pulls_get (pulls_session example_run [] []) ''foo/bar'' (pulls_query example_run ''all'') =
     Inr [] \<and>
   outcome (get_pr_number_from_workflow_run (pulls_session example_run [] []) ''foo/bar'' 123) =
     Inl (CannotDeterminePR ''No open PR found for branch someone/repo-name:other'')"
proof -
  let ?closed = "pulls_session example_run [] [\<lparr>number = 456\<rparr>, \<lparr>number = 7\<rparr>]"
  let ?none = "pulls_session example_run [] []"
  have run: "runs_get ?closed ''foo/bar'' 123 = Inr example_run"
    "runs_get ?none ''foo/bar'' 123 = Inr example_run"
    by (simp_all add: session_defs)
  have no_open: "pulls_get ?closed ''foo/bar'' (pulls_query example_run ''open'') = Inr []"
    "pulls_get ?none ''foo/bar'' (pulls_query example_run ''open'') = Inr []"
    by (simp_all add: session_defs pulls_query_def)
  have any: "pulls_get ?closed ''foo/bar'' (pulls_query example_run ''all'') =
      Inr [\<lparr>number = 456\<rparr>, \<lparr>number = 7\<rparr>]"
    "pulls_get ?none ''foo/bar'' (pulls_query example_run ''all'') = Inr []"
    by (simp_all add: session_defs pulls_query_def)
  from no_open_pr_fallback [OF run(1) no_open(1)] any(1)
  have "logs (get_pr_number_from_workflow_run ?closed ''foo/bar'' 123) =
     [''No open PR found for branch someone/repo-name:other, defaulting to all PRs'']"
    and "outcome (get_pr_number_from_workflow_run ?closed ''foo/bar'' 123) = Inr 456"
    by (simp_all add: logs_def session_defs)
  moreover from no_open_pr_fallback [OF run(2) no_open(2)] any(2)
  have "outcome (get_pr_number_from_workflow_run ?none ''foo/bar'' 123) =
     Inl (CannotDeterminePR ''No open PR found for branch someone/repo-name:other'')"
    by (simp add: session_defs)
  ultimately show ?thesis using run no_open any by blast
qed

section \<open>The login of the acting identity\<close>

lemma get_my_login_cases:
  "get_my_login github =
     ([Request User_GET],
      (case user_get github of
         Inl (Forbidden d) \<Rightarrow> Inr GITHUB_ACTIONS_LOGIN
       | Inl (Other_failure d) \<Rightarrow> Inl (Gateway (Other_failure d))
       | Inr response \<Rightarrow> Inr (login response)))"
  by (simp add: get_my_login_def io_defs split: sum.splits gateway_error.splits)

text \<open>
  Claim C6, as the code has it.  \<open>get_my_login\<close> returns the fixed login
  \<open>github-actions[bot]\<close> whenever the lookup raises the forbidden condition; on a
  successful lookup it returns the login of the response as it is; any other failure is
  raised unchanged.  It returns the fixed login only when the lookup is forbidden or when
  the response itself carries that login.
\<close>

theorem get_my_login_fallback:
  "(\<forall>d. user_get github = Inl (Forbidden d) \<longrightarrow>
      outcome (get_my_login github) = Inr GITHUB_ACTIONS_LOGIN) \<and>
   (\<forall>response. user_get github = Inr response \<longrightarrow>
      outcome (get_my_login github) = Inr (login response)) \<and>
   (\<forall>d. user_get github = Inl (Other_failure d) \<longrightarrow>
      outcome (get_my_login github) = Inl (Gateway (Other_failure d))) \<and>
   (outcome (get_my_login github) = Inr GITHUB_ACTIONS_LOGIN \<longrightarrow>
      is_forbidden (user_get github) \<or>
      (\<exists>response. user_get github = Inr response \<and> login response = GITHUB_ACTIONS_LOGIN))"
  by (auto simp add: get_my_login_cases outcome_def is_forbidden_def
      split: sum.splits gateway_error.splits)

theorem get_my_login_fallback_witness:
  "user_get (user_session (Inl (Forbidden ''403''))) = Inl (Forbidden ''403'') \<and>
   outcome (get_my_login (user_session (Inl (Forbidden ''403'')))) = Inr ''github-actions[bot]'' \<and>
   user_get (user_session (Inr \<lparr>login = ''foo''\<rparr>)) = Inr \<lparr>login = ''foo''\<rparr> \<and>
   outcome (get_my_login (user_session (Inr \<lparr>login = ''foo''\<rparr>))) = Inr ''foo'' \<and>
   user_get (user_session (Inl (Other_failure ''500''))) = Inl (Other_failure ''500'') \<and>
   outcome (get_my_login (user_session (Inl (Other_failure ''500'')))) =
     Inl (Gateway (Other_failure ''500''))"
proof -
  have answers: "user_get (user_session (Inl (Forbidden ''403''))) = Inl (Forbidden ''403'')"
    "user_get (user_session (Inr \<lparr>login = ''foo''\<rparr>)) = Inr \<lparr>login = ''foo''\<rparr>"
    "user_get (user_session (Inl (Other_failure ''500''))) = Inl (Other_failure ''500'')"
    by (simp_all add: session_defs)
  from get_my_login_fallback [of "user_session (Inl (Forbidden ''403''))"] answers(1)
  have "outcome (get_my_login (user_session (Inl (Forbidden ''403'')))) =
      Inr ''github-actions[bot]''"
    by (simp add: GITHUB_ACTIONS_LOGIN_def)
  moreover from get_my_login_fallback [of "user_session (Inr \<lparr>login = ''foo''\<rparr>)"] answers(2)
  have "outcome (get_my_login (user_session (Inr \<lparr>login = ''foo''\<rparr>))) = Inr ''foo''"
    by simp
  moreover from get_my_login_fallback [of "user_session (Inl (Other_failure ''500''))"] answers(3)
  have "outcome (get_my_login (user_session (Inl (Other_failure ''500'')))) =
     Inl (Gateway (Other_failure ''500''))"
    by simp
  ultimately show ?thesis using answers by blast
qed

text \<open>
  Claim C6, as the spec states it, has the fixed login returned exactly when the lookup
  is forbidden.  Here the lookup succeeds, with a response that carries the login
  \<open>github-actions[bot]\<close>, and the function returns the fixed login although nothing was
  forbidden.
\<close>

theorem get_my_login_fixed_login_without_forbidden:
  "outcome (get_my_login (user_session (Inr \<lparr>login = ''github-actions[bot]''\<rparr>))) =
     Inr GITHUB_ACTIONS_LOGIN \<and>
   \<not> is_forbidden (user_get (user_session (Inr \<lparr>login = ''github-actions[bot]''\<rparr>)))"
  by (simp add: get_my_login_def session_defs io_defs outcome_def is_forbidden_def
      GITHUB_ACTIONS_LOGIN_def)

section \<open>Downloading a file of an artifact\<close>









section \<open>The outputs file\<close>

lemma file_write_twice:
  "file_write path b (file_write path a fs) = file_write path (a @ b) fs"
  by (simp add: file_write_def)

lemma fold_file_write:
  "fold (\<lambda>(key, val) f. file_write path (line key val) f) kwargs (file_write path a fs) =
     file_write path (a @ concat (map (\<lambda>(key, val). line key val) kwargs)) fs"
proof (induction kwargs arbitrary: a)
  case Nil
  then show ?case by simp
next
  case (Cons kv kwargs)
  obtain key val where kv: "kv = (key, val)" by (cases kv)
  show ?case
    using Cons.IH [of "a @ line key val"] by (simp add: kv file_write_twice)
qed

lemma file_write_Nil:
  "files fs path = Some old \<Longrightarrow> file_write path [] fs = fs"
  by (simp add: file_write_def fun_upd_idem)

lemma file_write_Nil_new:
  "files fs path = None \<Longrightarrow> file_write path [] fs = fs\<lparr>files := (files fs)(path \<mapsto> [])\<rparr>"
  by (simp add: file_write_def)

text \<open>
  Claim C10.  Whatever the keyword arguments, \<open>set_output\<close> called with \<open>None\<close> leaves the
  file system as it is.  Called with a path that can be opened, it appends to that file,
  created if need be, one line \<open>key=json(value)\<close> for each argument, in order, and changes
  nothing else; if the path cannot be opened, the error is raised and nothing is written.
\<close>

theorem set_output_None_writes_nothing:
  "set_output None kwargs fs = (Inr (), fs) \<and>
   (\<not> unopenable fs path \<longrightarrow>
      set_output (Some path) kwargs fs =
        (Inr (), fs\<lparr>files := (files fs)(path \<mapsto>
           (case files fs path of None \<Rightarrow> [] | Some old \<Rightarrow> old)
             @ concat (map (\<lambda>(key, val). key @ ''='' @ json_dumps val @ [LF]) kwargs))\<rparr>)) \<and>
   (unopenable fs path \<longrightarrow> set_output (Some path) kwargs fs = (Inl OSError, fs))"
proof -
  let ?line = "\<lambda>key val. key @ ''='' @ json_dumps val @ [LF]"
  let ?lines = "concat (map (\<lambda>(key, val). ?line key val) kwargs)"
  have opened: "fold (\<lambda>(key, val) f. file_write path (?line key val) f) kwargs fs' =
      file_write path ?lines fs'" if "fs' = file_write path [] fs" for fs'
    using fold_file_write [of path ?line kwargs "[]" fs] that by (simp add: file_write_twice)
  show ?thesis
  proof (cases "files fs path")
    case None
    have "fold (\<lambda>(key, val) f. file_write path (?line key val) f) kwargs
            (fs\<lparr>files := (files fs)(path \<mapsto> [])\<rparr>) =
          file_write path ?lines (fs\<lparr>files := (files fs)(path \<mapsto> [])\<rparr>)"
      using opened file_write_Nil_new [OF None] by simp
    also have "\<dots> = fs\<lparr>files := (files fs)(path \<mapsto> ?lines)\<rparr>"
      by (simp add: file_write_def)
    finally show ?thesis
      using None by (simp add: set_output_def open_append_def)
  next
    case (Some old)
    have "fold (\<lambda>(key, val) f. file_write path (?line key val) f) kwargs fs =
          file_write path ?lines fs"
      using opened file_write_Nil [OF Some] by simp
    also have "\<dots> = fs\<lparr>files := (files fs)(path \<mapsto> old @ ?lines)\<rparr>"
      using Some by (simp add: file_write_def)
    finally show ?thesis
      using Some by (simp add: set_output_def open_append_def)
  qed
qed

theorem set_output_None_writes_nothing_witness:
  "set_output None [(''foo'', True), (''bar'', False)] empty_fs = (Inr (), empty_fs) \<and>
   \<not> unopenable empty_fs ''out'' \<and>
   set_output (Some ''out'') [(''foo'', True), (''bar'', False)] empty_fs =
     (Inr (), empty_fs\<lparr>files := [''out'' \<mapsto> ''foo=true'' @ [LF] @ ''bar=false'' @ [LF]]\<rparr>) \<and>
   unopenable empty_fs ''/'' \<and>
   set_output (Some ''/'') [(''foo'', True), (''bar'', False)] empty_fs = (Inl OSError, empty_fs)"
proof -
  have can: "\<not> unopenable empty_fs ''out''" and cannot: "unopenable empty_fs ''/''"
    by (simp_all add: session_defs)
  have fresh: "files empty_fs ''out'' = None" and same: "files empty_fs = Map.empty"
    by (simp_all add: session_defs)
  from set_output_None_writes_nothing
    [of "[(''foo'', True), (''bar'', False)]" empty_fs "''out''"] can fresh same
  have "set_output None [(''foo'', True), (''bar'', False)] empty_fs = (Inr (), empty_fs)"
    and "set_output (Some ''out'') [(''foo'', True), (''bar'', False)] empty_fs =
     (Inr (), empty_fs\<lparr>files := [''out'' \<mapsto> ''foo=true'' @ [LF] @ ''bar=false'' @ [LF]]\<rparr>)"
    by (simp_all add: json_dumps_def)
  moreover from set_output_None_writes_nothing
    [of "[(''foo'', True), (''bar'', False)]" empty_fs "''/''"] cannot
  have "set_output (Some ''/'') [(''foo'', True), (''bar'', False)] empty_fs =
      (Inl OSError, empty_fs)"
    by simp
  ultimately show ?thesis using can cannot by blast
qed

end
